theory Spec2Isabelle
  imports Main "HOL-Library.Word"
begin

unbundle bit_operations_syntax

section \<open>Go values\<close>

text \<open>
  A Go function either returns or panics; a function of type \<open>(T, error)\<close> returns a
  value or an error. Both ways of failing are values of \<open>failure\<close>, the left summand of
  a result: \<open>Panic\<close> unwinds the caller, \<open>Error\<close> is handed to it. The strings are the
  messages of the source, without the values \<open>fmt\<close> prints into them.
\<close>

datatype failure = Panic string | Error string

fun is_panic :: "failure + 'a \<Rightarrow> bool" where
  "is_panic (Inl (Panic _)) = True"
| "is_panic _ = False"

fun is_error :: "failure + 'a \<Rightarrow> bool" where
  "is_error (Inl (Error _)) = True"
| "is_error _ = False"

text \<open>\<open>panic(err)\<close>: the panic carries the error's message.\<close>

fun panic_with :: "failure \<Rightarrow> failure" where
  "panic_with (Error m) = Panic m"
| "panic_with (Panic m) = Panic m"

type_synonym address = "160 word"
type_synonym destination = "256 word"
type_synonym bytes = "8 word list"
type_synonym ObjectiveId = string

section \<open>Outcomes, states and channels\<close>

text \<open>
  The packages \<open>outcome\<close>, \<open>state\<close> and \<open>channel\<close> are imported by the sources; their
  types are written here with the fields the sources read and write. An amount is a
  \<open>*big.Int\<close>: an unbounded integer, or the nil pointer (\<open>None\<close>). A turn number is a
  \<open>uint64\<close>. The zero value of an allocation type is the normal one.
\<close>

datatype AllocationType = NormalAllocationType | GuaranteeAllocationType

record Allocation =
  Destination :: destination
  Amount :: "int option"
  AllocationType :: AllocationType
  Metadata :: bytes

record SingleAssetExit =
  Asset :: address
  Allocations :: "Allocation list"

type_synonym Exit = "SingleAssetExit list"

record State =
  ChainId :: int
  Participants :: "address list"
  ChannelNonce :: int
  AppDefinition :: address
  ChallengeDuration :: int
  AppData :: bytes
  Outcome :: Exit
  TurnNum :: "64 word"
  IsFinal :: bool

text \<open>
  Modelled from the spec: the type \<open>SignedState\<close> of package \<open>state\<close>, "a State plus a
  mapping from participant index to signature". The signature type is a parameter.
\<close>

record 'sig SignedState =
  state :: State
  sigs :: "nat \<rightharpoonup> 'sig"

text \<open>
  Modelled from the spec: the constructor \<open>state.NewSignedState\<close>, a signed state that
  carries no signature yet.
\<close>

definition NewSignedState :: "State \<Rightarrow> 'sig SignedState" where
  "NewSignedState s = \<lparr>state = s, sigs = Map.empty\<rparr>"

text \<open>
  Modelled from the spec: the type \<open>Channel\<close> of package \<open>channel\<close>, with the fields the
  sources use (\<open>Id\<close>, \<open>MyIndex\<close>, \<open>Participants\<close> under the name \<open>ChParticipants\<close>,
  \<open>SignedStateForTurnNum\<close>). The Go map from turn number to signed state is an
  association list with distinct keys.
\<close>

record 'sig Channel =
  Id :: destination
  MyIndex :: nat
  ChParticipants :: "address list"
  SignedStateForTurnNum :: "(64 word \<times> 'sig SignedState) list"

text \<open>\<open>TwoPartyLedger\<close> embeds a \<open>Channel\<close>.\<close>

record 'sig TwoPartyLedger =
  Channel :: "'sig Channel"

text \<open>
  Modelled from the spec: a message of package \<open>protocols\<close>, "addressed by recipient
  address and tagged with an objective id", carrying signed states. Of \<open>SideEffects\<close>
  the sources set \<open>MessagesToSend\<close>.
\<close>

record 'sig Message =
  To :: address
  MsgObjectiveId :: ObjectiveId
  SignedStates :: "'sig SignedState list"

record 'sig SideEffects =
  MessagesToSend :: "'sig Message list"

text \<open>
  The functions of the packages \<open>channel\<close>, \<open>state\<close>, \<open>outcome\<close> and \<open>protocols\<close> that
  the sources call are not among them: they are parameters of the model.
  \<^item> \<open>LatestSupportedState\<close> returns a state or an error.
  \<^item> \<open>Encode\<close> is \<open>GuaranteeMetadata{Left, Right}.Encode()\<close>; the caller drops its error.
  \<^item> \<open>SignAndAdd\<close> has a pointer receiver: it returns the signed state as it has
    changed it, or an error.
  \<^item> \<open>AddSignedState\<close> has a pointer receiver: it returns its boolean and the channel as
    it has left it.
  \<^item> \<open>FinalSignedByMe\<close>, \<open>FinalCompleted\<close> and \<open>PostFundComplete\<close> are the predicates
    of a channel that the query projection reads.
\<close>

record 'sig channel_ops =
  LatestSupportedState :: "'sig Channel \<Rightarrow> failure + State"
  Encode :: "destination \<Rightarrow> destination \<Rightarrow> bytes"
  SignAndAdd :: "bytes \<Rightarrow> 'sig SignedState \<Rightarrow> failure + 'sig SignedState"
  AddSignedState :: "'sig Channel \<Rightarrow> 'sig SignedState \<Rightarrow> bool \<times> 'sig Channel"
  CreateSignedStateMessages :: "ObjectiveId \<Rightarrow> 'sig SignedState \<Rightarrow> nat \<Rightarrow> 'sig Message list"
  FinalSignedByMe :: "'sig Channel \<Rightarrow> bool"
  FinalCompleted :: "'sig Channel \<Rightarrow> bool"
  PostFundComplete :: "'sig Channel \<Rightarrow> bool"

section \<open>The ledger cranker (protocols/ledger/ledger.go)\<close>

text \<open>
  A ledger request, with the fields \<open>HandleRequest\<close> reads. \<open>Amount\<close> is a
  \<open>types.Funds\<close>, a map from asset address to \<open>*big.Int\<close>; a missing key reads as nil.
\<close>

record LedgerRequest =
  LedgerId :: destination
  ReqDestination :: destination
  ReqAmount :: "address \<rightharpoonup> int"
  Left :: destination
  Right :: destination

text \<open>
  The cranker holds pointers to its ledgers: a ledger changed through the map is changed
  in the map.
\<close>

record 'sig LedgerCranker =
  ledgers :: "destination \<rightharpoonup> 'sig TwoPartyLedger"
  nonce :: int

definition NewLedgerCranker :: "'sig LedgerCranker" where
  "NewLedgerCranker = \<lparr>ledgers = Map.empty, nonce = 0\<rparr>"

definition Update :: "'sig LedgerCranker \<Rightarrow> 'sig TwoPartyLedger \<Rightarrow> 'sig LedgerCranker" where
  "Update l ledger = l\<lparr>ledgers := (ledgers l)(Id (Channel ledger) \<mapsto> ledger)\<rparr>"

text \<open>
  The local variable \<open>nextState\<close> of \<open>HandleRequest\<close>, as a function of the request
  and of the supported state. \<open>Clone\<close> is a deep copy: the identity on values. The new
  outcome is one single-asset exit whose asset is the zero address; the fields of an
  allocation that the source does not set have their zero values. The addition is that
  of \<open>uint64\<close>.
\<close>

definition nextState :: "'sig channel_ops \<Rightarrow> LedgerRequest \<Rightarrow> State \<Rightarrow> State" where
  "nextState ops request supported =
     supported
       \<lparr>Outcome :=
          [\<lparr>Asset = 0,
            Allocations =
              [\<lparr>Destination = Left request, Amount = Some 0,
                AllocationType = NormalAllocationType, Metadata = []\<rparr>,
               \<lparr>Destination = Right request, Amount = Some 0,
                AllocationType = NormalAllocationType, Metadata = []\<rparr>,
               \<lparr>Destination = ReqDestination request,
                Amount = ReqAmount request 0,
                AllocationType = GuaranteeAllocationType,
                Metadata = Encode ops (Left request) (Right request)\<rparr>]\<rparr>],
        TurnNum := TurnNum supported + 1\<rparr>"

text \<open>
  \<open>HandleRequest\<close>. Reading a missing key of the map gives the nil pointer, and
  \<open>ledger.Channel\<close> dereferences it. The result is the cranker with the ledger as
  \<open>AddSignedState\<close> left it, and the side effects.
\<close>

definition HandleRequest ::
  "'sig channel_ops \<Rightarrow> 'sig LedgerCranker \<Rightarrow> LedgerRequest \<Rightarrow> ObjectiveId \<Rightarrow> bytes
    \<Rightarrow> failure + ('sig LedgerCranker \<times> 'sig SideEffects)" where
  "HandleRequest ops l request oId secretKey =
     (case ledgers l (LedgerId request) of
        None \<Rightarrow> Inl (Panic ''invalid memory address or nil pointer dereference'')
      | Some ledger \<Rightarrow>
          (case LatestSupportedState ops (Channel ledger) of
             Inl err \<Rightarrow> Inl (panic_with err)
           | Inr supported \<Rightarrow>
               (case SignAndAdd ops secretKey (NewSignedState (nextState ops request supported)) of
                  Inl err \<Rightarrow> Inl (panic_with err)
                | Inr ss \<Rightarrow>
                    (case AddSignedState ops (Channel ledger) ss of
                       (False, _) \<Rightarrow> Inl (Panic ''could not add state'')
                     | (True, ch) \<Rightarrow>
                         Inr (l\<lparr>ledgers := (ledgers l)(LedgerId request \<mapsto> ledger\<lparr>Channel := ch\<rparr>)\<rparr>,
                              \<lparr>MessagesToSend =
                                 CreateSignedStateMessages ops oId ss (MyIndex ch)\<rparr>)))))"


text \<open>
  What side effects propose: for every signed state sent, its turn number and the
  destination, amount and type of every allocation of its outcome.
\<close>

definition allocation_summary :: "Allocation \<Rightarrow> destination \<times> int option \<times> AllocationType" where
  "allocation_summary a = (Destination a, Amount a, AllocationType a)"

definition proposal :: "'sig SignedState \<Rightarrow> 64 word \<times> (destination \<times> int option \<times> AllocationType) list" where
  "proposal ss =
     (TurnNum (state ss), map allocation_summary (concat (map Allocations (Outcome (state ss)))))"

definition proposals ::
  "'sig SideEffects \<Rightarrow> (64 word \<times> (destination \<times> int option \<times> AllocationType) list) list" where
  "proposals se = concat (map (map proposal \<circ> SignedStates) (MessagesToSend se))"

definition GetLedger :: "'sig LedgerCranker \<Rightarrow> destination \<Rightarrow> failure + 'sig TwoPartyLedger" where
  "GetLedger l ledgerId =
     (case ledgers l ledgerId of
        None \<Rightarrow> Inl (Panic ''Ledger not found'')
      | Some ledger \<Rightarrow> Inr ledger)"

section \<open>The query projection of a channel's status (client/query.go)\<close>

datatype ChannelStatus = Proposed | Ready | Closing | Complete

definition getStatusFromChannel :: "'sig channel_ops \<Rightarrow> 'sig Channel \<Rightarrow> ChannelStatus" where
  "getStatusFromChannel ops c =
     (if FinalSignedByMe ops c then
        (if FinalCompleted ops c then Complete else Closing)
      else if \<not> PostFundComplete ops c then Proposed
      else Ready)"

section \<open>The channel package after the spec\<close>

text \<open>
  Modelled from the spec: the functions of the packages \<open>channel\<close>, \<open>state\<close>,
  \<open>outcome\<close> and \<open>protocols\<close>, which are missing from the sources, as the spec's
  sections 3 and 4.1 describe them. They instantiate the parameters above in the
  examples. Signatures are idealised: a signature names its signer and the state it was
  made over, and verifying it compares both.
\<close>

type_synonym ideal_sig = "address \<times> State"

text \<open>
  Modelled from the spec: "valid only when every recorded signature verifies against
  that participant's address for this exact state hash", against the participant list
  of the channel.
\<close>

definition verifies :: "address list \<Rightarrow> ideal_sig SignedState \<Rightarrow> nat \<Rightarrow> bool" where
  "verifies ps ss i =
     (case sigs ss i of
        None \<Rightarrow> True
      | Some sg \<Rightarrow> fst sg = ps ! i \<and> snd sg = state ss)"

definition valid_signatures :: "address list \<Rightarrow> ideal_sig SignedState \<Rightarrow> bool" where
  "valid_signatures ps ss = list_all (verifies ps ss) [0..<length ps]"

text \<open>Modelled from the spec: "it carries signatures from every participant".\<close>

definition signed_by :: "'sig SignedState \<Rightarrow> nat \<Rightarrow> bool" where
  "signed_by ss i = (sigs ss i \<noteq> None)"

definition HasAllSignatures :: "'sig SignedState \<Rightarrow> bool" where
  "HasAllSignatures ss = list_all (signed_by ss) [0..<length (Participants (state ss))]"

definition count_signatures :: "'sig SignedState \<Rightarrow> nat" where
  "count_signatures ss = length (filter (signed_by ss) [0..<length (Participants (state ss))])"

definition fully_signed :: "64 word \<times> 'sig SignedState \<Rightarrow> bool" where
  "fully_signed e = HasAllSignatures (snd e)"

fun latest_of :: "64 word \<times> 'a \<Rightarrow> (64 word \<times> 'a) list \<Rightarrow> 64 word \<times> 'a" where
  "latest_of best [] = best"
| "latest_of best (x # xs) = latest_of (if fst best < fst x then x else best) xs"

text \<open>
  Modelled from the spec: \<open>LatestSupportedState\<close> "returns the highest-turn-number
  fully-signed state, or an error if none exists".
\<close>

definition spec_LatestSupportedState :: "'sig Channel \<Rightarrow> failure + State" where
  "spec_LatestSupportedState ch =
     (case filter fully_signed (SignedStateForTurnNum ch) of
        [] \<Rightarrow> Inl (Error ''no supported state'')
      | x # xs \<Rightarrow> Inr (state (snd (latest_of x xs))))"

fun index_of :: "'a \<Rightarrow> 'a list \<Rightarrow> nat option" where
  "index_of a [] = None"
| "index_of a (x # xs) = (if x = a then Some 0 else map_option Suc (index_of a xs))"

text \<open>
  Modelled from the spec: \<open>SignAndAdd\<close> signs the state with the key and records the
  signature under the signer's participant index; a signer who is no participant has no
  index, which is an error. The address of a key is a parameter.
\<close>

definition spec_SignAndAdd ::
  "(bytes \<Rightarrow> address) \<Rightarrow> bytes \<Rightarrow> ideal_sig SignedState \<Rightarrow> failure + ideal_sig SignedState" where
  "spec_SignAndAdd address_of secretKey ss =
     (case index_of (address_of secretKey) (Participants (state ss)) of
        None \<Rightarrow> Inl (Error ''signature does not match any participant'')
      | Some i \<Rightarrow> Inr (ss\<lparr>sigs := (sigs ss)(i \<mapsto> (address_of secretKey, state ss))\<rparr>))"

text \<open>
  Modelled from the spec: the channel owns "a mapping from turn number to the best
  (most-signed) SignedState seen for that turn"; of two with as many signatures the one
  already retained stays.
\<close>

fun retain_best ::
  "64 word \<Rightarrow> 'sig SignedState \<Rightarrow> (64 word \<times> 'sig SignedState) list
    \<Rightarrow> (64 word \<times> 'sig SignedState) list" where
  "retain_best t ss [] = [(t, ss)]"
| "retain_best t ss (e # es) =
     (if fst e = t
      then (t, if count_signatures (snd e) < count_signatures ss then ss else snd e) # es
      else e # retain_best t ss es)"

definition supported_above :: "64 word \<Rightarrow> 64 word \<times> 'sig SignedState \<Rightarrow> bool" where
  "supported_above t e = (t < fst e \<and> HasAllSignatures (snd e))"

text \<open>
  Modelled from the spec: \<open>AddSignedState\<close> "verifies every signature in ss against the
  channel's participant list; rejects (returns false, no mutation) if any signature is
  invalid or if a state with strictly higher turn number already has full support".
\<close>

definition spec_AddSignedState ::
  "ideal_sig Channel \<Rightarrow> ideal_sig SignedState \<Rightarrow> bool \<times> ideal_sig Channel" where
  "spec_AddSignedState ch ss =
     (if \<not> valid_signatures (ChParticipants ch) ss then (False, ch)
      else if list_ex (supported_above (TurnNum (state ss))) (SignedStateForTurnNum ch)
      then (False, ch)
      else (True, ch\<lparr>SignedStateForTurnNum :=
                        retain_best (TurnNum (state ss)) ss (SignedStateForTurnNum ch)\<rparr>))"

text \<open>
  Modelled from the spec: one message for every participant but oneself, "addressed by
  recipient address and tagged with an objective id", carrying the signed state.
\<close>

definition spec_CreateSignedStateMessages ::
  "ObjectiveId \<Rightarrow> 'sig SignedState \<Rightarrow> nat \<Rightarrow> 'sig Message list" where
  "spec_CreateSignedStateMessages oId ss myIndex =
     map (\<lambda>i. \<lparr>To = Participants (state ss) ! i, MsgObjectiveId = oId, SignedStates = [ss]\<rparr>)
       (filter (\<lambda>i. i \<noteq> myIndex) [0..<length (Participants (state ss))])"

text \<open>
  Modelled from the spec: the metadata of a guarantee encodes the pair (left, right) so
  that it decodes to the same pair: the 32 bytes of the one, then of the other.
\<close>

definition destination_bytes :: "destination \<Rightarrow> bytes" where
  "destination_bytes d = map (\<lambda>i. ucast (drop_bit (8 * (31 - i)) d)) [0..<32]"

definition spec_Encode :: "destination \<Rightarrow> destination \<Rightarrow> bytes" where
  "spec_Encode left right = destination_bytes left @ destination_bytes right"

text \<open>
  Modelled from the spec: the post-fund round is the round of turn 1, complete when
  every participant has signed it; "a final state is signed by me"; "a final state is
  fully supported".
\<close>

definition spec_PostFundComplete :: "'sig Channel \<Rightarrow> bool" where
  "spec_PostFundComplete ch =
     (case map_of (SignedStateForTurnNum ch) 1 of
        None \<Rightarrow> False
      | Some ss \<Rightarrow> HasAllSignatures ss)"

definition final_signed_by :: "nat \<Rightarrow> 64 word \<times> 'sig SignedState \<Rightarrow> bool" where
  "final_signed_by i e = (IsFinal (state (snd e)) \<and> signed_by (snd e) i)"

definition spec_FinalSignedByMe :: "'sig Channel \<Rightarrow> bool" where
  "spec_FinalSignedByMe ch = list_ex (final_signed_by (MyIndex ch)) (SignedStateForTurnNum ch)"

definition final_supported :: "64 word \<times> 'sig SignedState \<Rightarrow> bool" where
  "final_supported e = (IsFinal (state (snd e)) \<and> HasAllSignatures (snd e))"

definition spec_FinalCompleted :: "'sig Channel \<Rightarrow> bool" where
  "spec_FinalCompleted ch = list_ex final_supported (SignedStateForTurnNum ch)"

definition spec_ops :: "(bytes \<Rightarrow> address) \<Rightarrow> ideal_sig channel_ops" where
  "spec_ops address_of =
     \<lparr>LatestSupportedState = spec_LatestSupportedState,
      Encode = spec_Encode,
      SignAndAdd = spec_SignAndAdd address_of,
      AddSignedState = spec_AddSignedState,
      CreateSignedStateMessages = spec_CreateSignedStateMessages,
      FinalSignedByMe = spec_FinalSignedByMe,
      FinalCompleted = spec_FinalCompleted,
      PostFundComplete = spec_PostFundComplete\<rparr>"

section \<open>The mock store (package store)\<close>

text \<open>
  Modelled from the spec: the four variants of an objective, each with a status and
  references to the channels it manipulates. The sources read the fields \<open>C\<close> of a
  direct-fund objective and \<open>V\<close>, \<open>ToMyLeft\<close> and \<open>ToMyRight\<close> of a virtual-fund
  objective; they are pointers, where \<open>None\<close> is nil. A value of the interface
  \<open>protocols.Objective\<close> is a value of one of the variants.
\<close>

datatype ObjectiveStatus = Unapproved | Approved | Rejected | Completed

record 'sig DirectFundObjective =
  Status :: ObjectiveStatus
  C :: "'sig Channel option"

record 'sig SingleHopVirtualChannel =
  VChannel :: "'sig Channel"

record 'sig Connection =
  ConnChannel :: "'sig TwoPartyLedger option"

record 'sig VirtualFundObjective =
  VfStatus :: ObjectiveStatus
  V :: "'sig SingleHopVirtualChannel option"
  ToMyLeft :: "'sig Connection option"
  ToMyRight :: "'sig Connection option"

record 'sig DirectDefundObjective =
  DdStatus :: ObjectiveStatus
  DdC :: "'sig Channel option"

record 'sig VirtualDefundObjective =
  VdStatus :: ObjectiveStatus
  VdV :: "'sig SingleHopVirtualChannel option"

datatype 'sig Objective =
    DirectFund "'sig DirectFundObjective"
  | DirectDefund "'sig DirectDefundObjective"
  | VirtualFund "'sig VirtualFundObjective"
  | VirtualDefund "'sig VirtualDefundObjective"

text \<open>
  The methods of an objective and the functions of the packages \<open>directfund\<close> and
  \<open>virtualfund\<close> that the store calls are parameters: \<open>obj.MarshalJSON()\<close>,
  \<open>UnmarshalJSON\<close> on a fresh \<open>directfund.Objective\<close>, the two tests of an objective
  id, \<open>obj.Id()\<close> and \<open>obj.Channels()\<close>, a list of pointers.
\<close>

record 'sig store_ops =
  MarshalJSON :: "'sig Objective \<Rightarrow> failure + bytes"
  UnmarshalJSON :: "bytes \<Rightarrow> failure + 'sig DirectFundObjective"
  IsDirectFundObjective :: "ObjectiveId \<Rightarrow> bool"
  IsVirtualFundObjective :: "ObjectiveId \<Rightarrow> bool"
  ObjId :: "'sig Objective \<Rightarrow> ObjectiveId"
  Channels :: "'sig Objective \<Rightarrow> 'sig Channel option list"

record 'sig MockStore =
  objectives :: "ObjectiveId \<rightharpoonup> bytes"
  channels :: "destination \<rightharpoonup> 'sig Channel"
  key :: bytes
  address :: address

text \<open>\<open>fmt.Errorf("...: %w", err)\<close>: an error with a new message; a panic is not caught.\<close>

fun wrap :: "string \<Rightarrow> failure \<Rightarrow> failure" where
  "wrap m (Error _) = Error m"
| "wrap m (Panic p) = Panic p"

text \<open>
  \<open>decodeObjective\<close> returns a pointer and an error; its callers drop the pointer when the
  error is not nil, so the result is the one or the other. For a virtual-fund id it
  decodes into a \<open>directfund.Objective\<close>, as the source does.
\<close>

definition decodeObjective ::
  "'sig store_ops \<Rightarrow> ObjectiveId \<Rightarrow> bytes \<Rightarrow> failure + 'sig Objective" where
  "decodeObjective ops id' data' =
     (if IsDirectFundObjective ops id' then
        (case UnmarshalJSON ops data' of
           Inl err \<Rightarrow> Inl err
         | Inr dfo \<Rightarrow> Inr (DirectFund dfo))
      else if IsVirtualFundObjective ops id' then
        (case UnmarshalJSON ops data' of
           Inl err \<Rightarrow> Inl err
         | Inr vfo \<Rightarrow> Inr (DirectFund vfo))
      else Inl (Error ''objective id does not correspond to a known Objective type''))"

definition SetChannel :: "'sig MockStore \<Rightarrow> 'sig Channel \<Rightarrow> 'sig MockStore" where
  "SetChannel ms ch = ms\<lparr>channels := (channels ms)(Id ch \<mapsto> ch)\<rparr>"

definition getChannelById :: "'sig MockStore \<Rightarrow> destination \<Rightarrow> failure + 'sig Channel" where
  "getChannelById ms id' =
     (case channels ms id' of
        Some ch \<Rightarrow> Inr ch
      | None \<Rightarrow> Inl (Error ''channel not found''))"

text \<open>
  The loop of \<open>SetObjective\<close> over \<open>obj.Channels()\<close>. \<open>SetChannel\<close> always returns nil;
  it dereferences its pointer. The store is returned as the loop has left it, with the
  failure if there is one.
\<close>

fun SetChannels ::
  "'sig MockStore \<Rightarrow> 'sig Channel option list \<Rightarrow> 'sig MockStore \<times> failure option" where
  "SetChannels ms [] = (ms, None)"
| "SetChannels ms (None # chs) =
     (ms, Some (Panic ''invalid memory address or nil pointer dereference''))"
| "SetChannels ms (Some ch # chs) = SetChannels (SetChannel ms ch) chs"

definition SetObjective ::
  "'sig store_ops \<Rightarrow> 'sig MockStore \<Rightarrow> 'sig Objective \<Rightarrow> 'sig MockStore \<times> failure option" where
  "SetObjective ops ms obj =
     (case MarshalJSON ops obj of
        Inl err \<Rightarrow> (ms, Some (wrap ''error setting objective'' err))
      | Inr objJSON \<Rightarrow>
          SetChannels (ms\<lparr>objectives := (objectives ms)(ObjId ops obj \<mapsto> objJSON)\<rparr>)
            (Channels ops obj))"

text \<open>
  The two blocks of \<open>populateChannelData\<close> for the left and the right connection are the
  same function of the connection.
\<close>

definition populateConnection ::
  "'sig MockStore \<Rightarrow> 'sig Connection option \<Rightarrow> failure + 'sig Connection option" where
  "populateConnection ms conn =
     (case conn of
        None \<Rightarrow> Inr None
      | Some cn \<Rightarrow>
          (case ConnChannel cn of
             None \<Rightarrow> Inr (Some cn)
           | Some ledger \<Rightarrow>
               (case getChannelById ms (Id (Channel ledger)) of
                  Inl err \<Rightarrow> Inl err
                | Inr ch \<Rightarrow> Inr (Some (cn\<lparr>ConnChannel := Some \<lparr>Channel = ch\<rparr>\<rparr>)))))"

definition populateChannelData ::
  "'sig MockStore \<Rightarrow> 'sig Objective \<Rightarrow> failure + 'sig Objective" where
  "populateChannelData ms obj =
     (case obj of
        DirectFund dfo \<Rightarrow>
          (case C dfo of
             None \<Rightarrow> Inl (Panic ''invalid memory address or nil pointer dereference'')
           | Some c \<Rightarrow>
               (case getChannelById ms (Id c) of
                  Inl err \<Rightarrow> Inl (wrap ''error retrieving channel data for objective'' err)
                | Inr ch \<Rightarrow> Inr (DirectFund (dfo\<lparr>C := Some ch\<rparr>))))
      | VirtualFund vfo \<Rightarrow>
          (case V vfo of
             None \<Rightarrow> Inl (Panic ''invalid memory address or nil pointer dereference'')
           | Some v \<Rightarrow>
               (case getChannelById ms (Id (VChannel v)) of
                  Inl err \<Rightarrow> Inl (wrap ''error retrieving virtual channel data for objective'' err)
                | Inr vch \<Rightarrow>
                    (case populateConnection ms (ToMyLeft vfo) of
                       Inl err \<Rightarrow>
                         Inl (wrap ''error retrieving left ledger channel data for objective'' err)
                     | Inr left \<Rightarrow>
                         (case populateConnection ms (ToMyRight vfo) of
                            Inl err \<Rightarrow>
                              Inl (wrap ''error retrieving right ledger channel data for objective'' err)
                          | Inr right \<Rightarrow>
                              Inr (VirtualFund
                                     (vfo\<lparr>V := Some \<lparr>VChannel = vch\<rparr>,
                                          ToMyLeft := left, ToMyRight := right\<rparr>))))))
      | _ \<Rightarrow> Inl (Error ''objective did not correctly represent a known Objective type''))"

definition GetObjectiveById ::
  "'sig store_ops \<Rightarrow> 'sig MockStore \<Rightarrow> ObjectiveId \<Rightarrow> failure + 'sig Objective" where
  "GetObjectiveById ops ms id' =
     (case objectives ms id' of
        None \<Rightarrow> Inl (Error ''no objective with id exists in storage'')
      | Some objJSON \<Rightarrow>
          (case decodeObjective ops id' objJSON of
             Inl err \<Rightarrow> Inl (wrap ''error decoding objective'' err)
           | Inr obj \<Rightarrow>
               (case populateChannelData ms obj of
                  Inl err \<Rightarrow> Inl (wrap ''error populating channel data for objective'' err)
                | Inr obj' \<Rightarrow> Inr obj')))"

section \<open>The reverse payment proxy (reverseproxy/proxy.go)\<close>

definition AMOUNT_VOUCHER_PARAM :: string where
  "AMOUNT_VOUCHER_PARAM = ''amount''"

definition CHANNEL_ID_VOUCHER_PARAM :: string where
  "CHANNEL_ID_VOUCHER_PARAM = ''channelId''"

definition SIGNATURE_VOUCHER_PARAM :: string where
  "SIGNATURE_VOUCHER_PARAM = ''signature''"

text \<open>
  \<open>url.Values\<close> is a map from a key to the list of its values: an association list with
  distinct keys. \<open>Has\<close> tells whether a key is set, \<open>Get\<close> gives the first value of a key
  or the empty string, \<open>delete\<close> removes a key.
\<close>

type_synonym Values = "(string \<times> string list) list"

definition Has :: "Values \<Rightarrow> string \<Rightarrow> bool" where
  "Has v k = (map_of v k \<noteq> None)"

definition Get :: "Values \<Rightarrow> string \<Rightarrow> string" where
  "Get v k =
     (case map_of v k of
        None \<Rightarrow> []
      | Some [] \<Rightarrow> []
      | Some (x # _) \<Rightarrow> x)"

definition delete :: "Values \<Rightarrow> string \<Rightarrow> Values" where
  "delete v k = filter (\<lambda>e. fst e \<noteq> k) v"

subsection \<open>The library functions \<open>parseVoucher\<close> calls\<close>

text \<open>
  \<open>hexutil.MustDecode\<close> of go-ethereum "decodes a hex string with 0x prefix. It panics for
  invalid input." \<open>hexutil.Decode\<close> fails on the empty string, on a string without the
  prefix, and when \<open>hex.DecodeString\<close> fails on the rest: on a character that is no
  hexadecimal digit, or on an odd length.
\<close>

definition hex_value :: "char \<Rightarrow> nat option" where
  "hex_value c =
     (let n = (of_char c :: nat) in
      if 48 \<le> n \<and> n \<le> 57 then Some (n - 48)
      else if 97 \<le> n \<and> n \<le> 102 then Some (n - 87)
      else if 65 \<le> n \<and> n \<le> 70 then Some (n - 55)
      else None)"

fun hex_DecodeString :: "string \<Rightarrow> failure + bytes" where
  "hex_DecodeString [] = Inr []"
| "hex_DecodeString [c] =
     (if hex_value c = None then Inl (Error ''invalid hex string'')
      else Inl (Error ''hex string of odd length''))"
| "hex_DecodeString (p # q # rest) =
     (case hex_value p of
        None \<Rightarrow> Inl (Error ''invalid hex string'')
      | Some a \<Rightarrow>
          (case hex_value q of
             None \<Rightarrow> Inl (Error ''invalid hex string'')
           | Some b \<Rightarrow>
               (case hex_DecodeString rest of
                  Inl err \<Rightarrow> Inl err
                | Inr bs \<Rightarrow> Inr (of_nat (16 * a + b) # bs))))"

definition has0xPrefix :: "string \<Rightarrow> bool" where
  "has0xPrefix input =
     (case input of
        a # b # _ \<Rightarrow> a = CHR ''0'' \<and> (b = CHR ''x'' \<or> b = CHR ''X'')
      | _ \<Rightarrow> False)"

definition hexutil_Decode :: "string \<Rightarrow> failure + bytes" where
  "hexutil_Decode input =
     (if input = [] then Inl (Error ''empty hex string'')
      else if has0xPrefix input then hex_DecodeString (drop 2 input)
      else Inl (Error ''hex string without 0x prefix''))"

definition MustDecode :: "string \<Rightarrow> failure + bytes" where
  "MustDecode input =
     (case hexutil_Decode input of
        Inl err \<Rightarrow> Inl (panic_with err)
      | Inr b \<Rightarrow> Inr b)"

text \<open>
  \<open>amount := big.NewInt(0); amount.SetString(rawAmt, 10)\<close>: the value of \<open>amount\<close>
  afterwards. \<open>SetString\<close> of math/big reads a sign, if there is one, and then decimal
  digits into the receiver as long as there are any; when characters are left, or there
  was no digit, it returns failure, which the caller does not look at, and the receiver
  keeps what was read. On the empty string nothing is read.
\<close>

definition is_digit :: "char \<Rightarrow> bool" where
  "is_digit c = (48 \<le> (of_char c :: nat) \<and> (of_char c :: nat) \<le> 57)"

definition digits_value :: "string \<Rightarrow> int" where
  "digits_value ds = foldl (\<lambda>v c. 10 * v + (int (of_char c) - 48)) 0 ds"

definition SetString :: "string \<Rightarrow> int" where
  "SetString s =
     (case s of
        [] \<Rightarrow> 0
      | c # cs \<Rightarrow>
          let rest = (if c = CHR ''-'' \<or> c = CHR ''+'' then cs else s);
              v = digits_value (takeWhile is_digit rest)
          in if c = CHR ''-'' then - v else v)"

subsection \<open>The proxy\<close>

text \<open>
  A voucher; the type of its signature is that of \<open>crypto.SplitSignature\<close>'s result, a
  parameter.
\<close>

record 'sg Voucher =
  ChannelId :: destination
  VoucherAmount :: int
  Signature :: 'sg

text \<open>
  What the proxy calls and the sources do not hold: \<open>url.ParseQuery\<close>, which returns the
  values it has parsed and the first error; \<open>Values.Encode\<close>; \<open>common.HexToHash\<close>, which
  does not fail; \<open>crypto.SplitSignature\<close>, which returns a signature or panics (\<open>None\<close>); and \<open>ReceiveVoucher\<close> of the
  RPC client, which returns an error or a summary, of which the proxy reads the delta.
\<close>

record 'sg proxy_env =
  ParseQuery :: "string \<Rightarrow> Values \<times> failure option"
  EncodeValues :: "Values \<Rightarrow> string"
  HexToHash :: "string \<Rightarrow> destination"
  SplitSignature :: "bytes \<Rightarrow> 'sg option"
  ReceiveVoucher :: "'sg Voucher \<Rightarrow> failure + int"

definition parseVoucher :: "'sg proxy_env \<Rightarrow> Values \<Rightarrow> failure + 'sg Voucher" where
  "parseVoucher env params =
     (if \<not> Has params CHANNEL_ID_VOUCHER_PARAM
      then Inl (Error ''a valid channel id must be provided'')
      else if \<not> Has params AMOUNT_VOUCHER_PARAM
      then Inl (Error ''a valid amount must be provided'')
      else if \<not> Has params SIGNATURE_VOUCHER_PARAM
      then Inl (Error ''a valid signature must be provided'')
      else
        let rawChId = Get params CHANNEL_ID_VOUCHER_PARAM;
            rawAmt = Get params AMOUNT_VOUCHER_PARAM;
            amount = SetString rawAmt;
            rawSignature = Get params SIGNATURE_VOUCHER_PARAM
        in (case MustDecode rawSignature of
              Inl f \<Rightarrow> Inl f
            | Inr b \<Rightarrow>
                (case SplitSignature env b of
                   None \<Rightarrow> Inl (Panic ''SplitSignature'')
                 | Some sg \<Rightarrow>
                     Inr \<lparr>ChannelId = HexToHash env rawChId, VoucherAmount = amount,
                          Signature = sg\<rparr>)))"

text \<open>Of a request the proxy reads and rewrites the raw query of its URL.\<close>

record Request =
  Path :: string
  RawQuery :: string

record ReversePaymentProxy =
  expectedPaymentAmount :: int

text \<open>\<open>u.Query()\<close> is \<open>ParseQuery(u.RawQuery)\<close> without its error.\<close>

definition removeVoucherParams :: "'sg proxy_env \<Rightarrow> Request \<Rightarrow> Request" where
  "removeVoucherParams env u =
     (let queryParams = fst (ParseQuery env (RawQuery u));
          queryParams1 = delete queryParams CHANNEL_ID_VOUCHER_PARAM;
          queryParams2 = delete queryParams1 SIGNATURE_VOUCHER_PARAM;
          queryParams3 = delete queryParams2 AMOUNT_VOUCHER_PARAM
      in u\<lparr>RawQuery := EncodeValues env queryParams3\<rparr>)"

text \<open>
  What \<open>ServeHTTP\<close> does with a request: it answers with \<open>webError\<close> and a status code,
  or hands the request, as it has rewritten it, to the reverse proxy. A panic in the
  handler writes no response.
\<close>

datatype proxy_action = WebError nat | Forwarded Request

definition ServeHTTP ::
  "'sg proxy_env \<Rightarrow> ReversePaymentProxy \<Rightarrow> Request \<Rightarrow> failure + proxy_action" where
  "ServeHTTP env p r =
     (case ParseQuery env (RawQuery r) of
        (params, Some err) \<Rightarrow> Inr (WebError 400)
      | (params, None) \<Rightarrow>
          (case parseVoucher env params of
             Inl (Panic m) \<Rightarrow> Inl (Panic m)
           | Inl (Error m) \<Rightarrow> Inr (WebError 402)
           | Inr v \<Rightarrow>
               (case ReceiveVoucher env v of
                  Inl (Panic m) \<Rightarrow> Inl (Panic m)
                | Inl (Error m) \<Rightarrow> Inr (WebError 402)
                | Inr delta \<Rightarrow>
                    if delta < expectedPaymentAmount p then Inr (WebError 402)
                    else Inr (Forwarded (removeVoucherParams env r)))))"

section \<open>Chain-transaction creators (nitro-protocol, force-move.ts)\<close>

text \<open>
  The TypeScript functions \<open>createChallengeTransaction\<close> and \<open>concludeArgs\<close> throw an
  \<open>Error\<close> on malformed input. A thrown error is the left summand of the result. The
  two messages of these functions are the two first constructors; the second one carries
  the two lengths the message prints.
\<close>

datatype js_error =
    NoStatesProvided
  | LengthMismatch nat nat
  | Thrown string

text \<open>Of a \<open>State\<close> the functions read the participants of its channel and its turn number.\<close>

record ts_Channel =
  participants :: "string list"

record ts_State =
  turnNum :: nat
  channel :: ts_Channel

text \<open>
  \<open>getFixedPart\<close>, \<open>getVariablePart\<close>, \<open>signChallengeMessage\<close> and the contract
  interface's \<open>encodeFunctionData\<close> live in other modules: they are parameters. The last
  two may throw.
\<close>

record ('fp, 'vp, 'sg) force_move_env =
  getFixedPart :: "ts_State \<Rightarrow> 'fp"
  getVariablePart :: "ts_State \<Rightarrow> 'vp"
  signChallengeMessage :: "ts_State list \<Rightarrow> string \<Rightarrow> js_error + 'sg"
  encodeChallenge :: "'fp \<Rightarrow> 'vp list \<Rightarrow> 'sg list \<Rightarrow> nat list \<Rightarrow> 'sg \<Rightarrow> js_error + string"

record transaction_request =
  data :: string

definition createChallengeTransaction ::
  "('fp, 'vp, 'sg) force_move_env \<Rightarrow> ts_State list \<Rightarrow> 'sg list \<Rightarrow> nat list \<Rightarrow> string
    \<Rightarrow> js_error + transaction_request" where
  "createChallengeTransaction env states signatures whoSignedWhat challengerPrivateKey =
     (case states of
        [] \<Rightarrow> Inl NoStatesProvided
      | s0 # _ \<Rightarrow>
          if length (participants (channel s0)) \<noteq> length signatures
          then Inl (LengthMismatch (length (participants (channel s0))) (length signatures))
          else
            let variableParts = map (getVariablePart env) states;
                fixedPart = getFixedPart env s0
            in (case signChallengeMessage env states challengerPrivateKey of
                  Inl e \<Rightarrow> Inl e
                | Inr challengerSignature \<Rightarrow>
                    (case encodeChallenge env fixedPart variableParts signatures whoSignedWhat
                            challengerSignature of
                       Inl e \<Rightarrow> Inl e
                     | Inr d \<Rightarrow> Inr \<lparr>data = d\<rparr>)))"

text \<open>The array \<open>concludeArgs\<close> returns, as a record of its five entries in order.\<close>

record ('fp, 'vp, 'sg) conclude_args =
  ca_fixedPart :: 'fp
  ca_latestVariablePart :: 'vp
  ca_numStates :: nat
  ca_whoSignedWhat :: "nat list"
  ca_signatures :: "'sg list"

definition concludeArgs ::
  "('fp, 'vp, 'sg) force_move_env \<Rightarrow> ts_State list \<Rightarrow> 'sg list \<Rightarrow> nat list
    \<Rightarrow> js_error + ('fp, 'vp, 'sg) conclude_args" where
  "concludeArgs env states signatures whoSignedWhat =
     (case states of
        [] \<Rightarrow> Inl NoStatesProvided
      | s0 # _ \<Rightarrow>
          if length (participants (channel s0)) \<noteq> length signatures
          then Inl (LengthMismatch (length (participants (channel s0))) (length signatures))
          else
            let lastState = foldl (\<lambda>s1 s2. if turnNum s1 \<ge> turnNum s2 then s1 else s2) s0 states
            in Inr \<lparr>ca_fixedPart = getFixedPart env lastState,
                    ca_latestVariablePart = getVariablePart env lastState,
                    ca_numStates = length states,
                    ca_whoSignedWhat = whoSignedWhat,
                    ca_signatures = signatures\<rparr>)"

section \<open>Example values\<close>

text \<open>
  A ledger channel between Alice (address 1, key \<open>[1]\<close>) and Bob (address 2, key
  \<open>[2]\<close>), seen by Alice, whose only state is the pre-fund state of turn 0, signed by
  both. In the examples the address of a key is its first byte.
\<close>

definition example_address_of :: "bytes \<Rightarrow> address" where
  "example_address_of k = (case k of [] \<Rightarrow> 0 | b # _ \<Rightarrow> ucast b)"

definition example_prefund :: State where
  "example_prefund =
     \<lparr>ChainId = 9001, Participants = [1, 2], ChannelNonce = 0, AppDefinition = 0,
      ChallengeDuration = 45, AppData = [],
      Outcome = [\<lparr>Asset = 0, Allocations =
                   [\<lparr>Destination = 1, Amount = Some 100,
                     AllocationType = NormalAllocationType, Metadata = []\<rparr>,
                    \<lparr>Destination = 2, Amount = Some 100,
                     AllocationType = NormalAllocationType, Metadata = []\<rparr>]\<rparr>],
      TurnNum = 0, IsFinal = False\<rparr>"

definition example_channel :: "ideal_sig Channel" where
  "example_channel =
     \<lparr>Id = 77, MyIndex = 0, ChParticipants = [1, 2],
      SignedStateForTurnNum =
        [(0, \<lparr>state = example_prefund,
               sigs = [0 \<mapsto> (1, example_prefund), 1 \<mapsto> (2, example_prefund)]\<rparr>)]\<rparr>"

definition example_cranker :: "ideal_sig LedgerCranker" where
  "example_cranker = Update NewLedgerCranker \<lparr>Channel = example_channel\<rparr>"

definition example_request :: LedgerRequest where
  "example_request =
     \<lparr>LedgerId = 77, ReqDestination = 500, ReqAmount = [0 \<mapsto> 10], Left = 1, Right = 2\<rparr>"

definition example_ops :: "ideal_sig channel_ops" where
  "example_ops = spec_ops example_address_of"

text \<open>Alice's request for a guarantee of 10, the state it proposes, signed by Alice.\<close>

definition example_proposed :: State where
  "example_proposed = nextState example_ops example_request example_prefund"

definition example_signed :: "ideal_sig SignedState" where
  "example_signed = \<lparr>state = example_proposed, sigs = [0 \<mapsto> (1, example_proposed)]\<rparr>"

definition example_channel_proposed :: "ideal_sig Channel" where
  "example_channel_proposed =
     example_channel\<lparr>SignedStateForTurnNum :=
        SignedStateForTurnNum example_channel @ [(1, example_signed)]\<rparr>"

definition example_cranker_proposed :: "ideal_sig LedgerCranker" where
  "example_cranker_proposed =
     example_cranker\<lparr>ledgers :=
        (ledgers example_cranker)(77 \<mapsto> \<lparr>Channel = example_channel_proposed\<rparr>)\<rparr>"

text \<open>A second request for the same ledger: a guarantee of 20 for another channel.\<close>

definition second_request :: LedgerRequest where
  "second_request =
     \<lparr>LedgerId = 77, ReqDestination = 501, ReqAmount = [0 \<mapsto> 20], Left = 1, Right = 2\<rparr>"

text \<open>The ledger once Bob has countersigned the guarantee: turn 1 is supported.\<close>

definition example_channel_guaranteed :: "ideal_sig Channel" where
  "example_channel_guaranteed =
     example_channel\<lparr>SignedStateForTurnNum :=
        SignedStateForTurnNum example_channel @
          [(1, \<lparr>state = example_proposed,
                 sigs = [0 \<mapsto> (1, example_proposed), 1 \<mapsto> (2, example_proposed)]\<rparr>)]\<rparr>"

definition example_cranker_guaranteed :: "ideal_sig LedgerCranker" where
  "example_cranker_guaranteed = Update NewLedgerCranker \<lparr>Channel = example_channel_guaranteed\<rparr>"

text \<open>
  A channel in which Alice has signed a final state of turn 2 when nobody has signed a
  state of turn 1.
\<close>

definition example_final :: State where
  "example_final = example_prefund\<lparr>TurnNum := 2, IsFinal := True\<rparr>"

definition example_channel_closing :: "ideal_sig Channel" where
  "example_channel_closing =
     example_channel\<lparr>SignedStateForTurnNum :=
        SignedStateForTurnNum example_channel @
          [(2, \<lparr>state = example_final, sigs = [0 \<mapsto> (1, example_final)]\<rparr>)]\<rparr>"

text \<open>
  A store for the examples. An objective id is the prefix of the objective's variant
  followed by the channel id in hexadecimal; the two tests of an id look for the
  direct-fund and the virtual-fund prefix. The encoding of an objective stands for its
  JSON: the byte of its status, then the 32 bytes of its channel id, as the objective is
  stored with the id of its channel and not with the channel.
\<close>

definition hex_char :: "nat \<Rightarrow> char" where
  "hex_char n = ''0123456789abcdef'' ! n"

definition destination_String :: "destination \<Rightarrow> string" where
  "destination_String d =
     ''0x'' @ map (\<lambda>i. hex_char (unat (drop_bit (4 * (63 - i)) d AND 15))) [0..<64]"

definition bytes_destination :: "bytes \<Rightarrow> destination" where
  "bytes_destination bs = foldl (\<lambda>w b. push_bit 8 w OR ucast b) 0 bs"

fun status_code :: "ObjectiveStatus \<Rightarrow> 8 word" where
  "status_code Unapproved = 0"
| "status_code Approved = 1"
| "status_code Rejected = 2"
| "status_code Completed = 3"

definition code_status :: "8 word \<Rightarrow> ObjectiveStatus" where
  "code_status b =
     (if b = 0 then Unapproved else if b = 1 then Approved
      else if b = 2 then Rejected else Completed)"

definition bare_channel :: "destination \<Rightarrow> 'sig Channel" where
  "bare_channel d = \<lparr>Id = d, MyIndex = 0, ChParticipants = [], SignedStateForTurnNum = []\<rparr>"

definition example_encode :: "ObjectiveStatus \<Rightarrow> 'sig Channel option \<Rightarrow> failure + bytes" where
  "example_encode st ch =
     (case ch of
        None \<Rightarrow> Inl (Error ''no channel'')
      | Some c \<Rightarrow> Inr (status_code st # destination_bytes (Id c)))"

definition example_MarshalJSON :: "'sig Objective \<Rightarrow> failure + bytes" where
  "example_MarshalJSON obj =
     (case obj of
        DirectFund x \<Rightarrow> example_encode (Status x) (C x)
      | DirectDefund x \<Rightarrow> example_encode (DdStatus x) (DdC x)
      | VirtualFund x \<Rightarrow> example_encode (VfStatus x) (map_option VChannel (V x))
      | VirtualDefund x \<Rightarrow> example_encode (VdStatus x) (map_option VChannel (VdV x)))"

definition example_UnmarshalJSON :: "bytes \<Rightarrow> failure + 'sig DirectFundObjective" where
  "example_UnmarshalJSON bs =
     (case bs of
        [] \<Rightarrow> Inl (Error ''unexpected end of JSON input'')
      | b # rest \<Rightarrow>
          if length rest = 32
          then Inr \<lparr>Status = code_status b, C = Some (bare_channel (bytes_destination rest))\<rparr>
          else Inl (Error ''invalid channel id''))"

definition channel_id_string :: "'sig Channel option \<Rightarrow> string" where
  "channel_id_string ch =
     (case ch of None \<Rightarrow> destination_String 0 | Some c \<Rightarrow> destination_String (Id c))"

definition example_ObjId :: "'sig Objective \<Rightarrow> ObjectiveId" where
  "example_ObjId obj =
     (case obj of
        DirectFund x \<Rightarrow> ''DirectFunding-'' @ channel_id_string (C x)
      | DirectDefund x \<Rightarrow> ''DirectDefunding-'' @ channel_id_string (DdC x)
      | VirtualFund x \<Rightarrow> ''VirtualFund-'' @ channel_id_string (map_option VChannel (V x))
      | VirtualDefund x \<Rightarrow> ''VirtualDefund-'' @ channel_id_string (map_option VChannel (VdV x)))"

definition example_Channels :: "'sig Objective \<Rightarrow> 'sig Channel option list" where
  "example_Channels obj =
     (case obj of
        DirectFund x \<Rightarrow> [C x]
      | DirectDefund x \<Rightarrow> [DdC x]
      | VirtualFund x \<Rightarrow> [map_option VChannel (V x)]
      | VirtualDefund x \<Rightarrow> [map_option VChannel (VdV x)])"

definition HasPrefix :: "string \<Rightarrow> string \<Rightarrow> bool" where
  "HasPrefix s p = (take (length p) s = p)"

definition example_store_ops :: "ideal_sig store_ops" where
  "example_store_ops =
     \<lparr>MarshalJSON = example_MarshalJSON,
      UnmarshalJSON = example_UnmarshalJSON,
      IsDirectFundObjective = (\<lambda>i. HasPrefix i ''DirectFunding-''),
      IsVirtualFundObjective = (\<lambda>i. HasPrefix i ''VirtualFund-''),
      ObjId = example_ObjId,
      Channels = example_Channels\<rparr>"

definition example_store :: "ideal_sig MockStore" where
  "example_store = \<lparr>objectives = Map.empty, channels = Map.empty, key = [1], address = 1\<rparr>"

text \<open>An objective of each of two variants, for the ledger channel of the examples.\<close>

definition example_directfund :: "ideal_sig DirectFundObjective" where
  "example_directfund = \<lparr>Status = Approved, C = Some example_channel\<rparr>"

definition example_directdefund :: "ideal_sig DirectDefundObjective" where
  "example_directdefund = \<lparr>DdStatus = Approved, DdC = Some example_channel\<rparr>"

definition example_json :: bytes where
  "example_json = [1, 0, 0, 0, 0, 0, 0, 0, 0, 0, 0, 0, 0, 0, 0, 0, 0, 0, 0, 0, 0, 0, 0, 0, 0, 0, 0, 0,
                   0, 0, 0, 0, 77]"

definition example_id_string :: string where
  "example_id_string = ''0x000000000000000000000000000000000000000000000000000000000000004d''"

text \<open>
  A proxy for the examples. The query parser splits at \<open>&\<close> and at the first \<open>=\<close>, as
  \<open>url.ParseQuery\<close> does on a query without escapes; \<open>SplitSignature\<close> takes the
  65 bytes R, S and V apart and panics on a shorter slice; every voucher received adds 10.
\<close>

fun split_on :: "char \<Rightarrow> string \<Rightarrow> string list" where
  "split_on c [] = [[]]"
| "split_on c (x # xs) =
     (if x = c then [] # split_on c xs
      else (case split_on c xs of
              [] \<Rightarrow> [[x]]
            | y # ys \<Rightarrow> (x # y) # ys))"

definition add_value :: "Values \<Rightarrow> string \<Rightarrow> Values" where
  "add_value m seg =
     (if seg = [] then m
      else
        let k = takeWhile (\<lambda>c. c \<noteq> CHR ''='') seg;
            v = drop 1 (dropWhile (\<lambda>c. c \<noteq> CHR ''='') seg)
        in (case map_of m k of
              None \<Rightarrow> m @ [(k, [v])]
            | Some vs \<Rightarrow> map (\<lambda>e. if fst e = k then (k, vs @ [v]) else e) m))"

definition example_ParseQuery :: "string \<Rightarrow> Values \<times> failure option" where
  "example_ParseQuery q = (foldl add_value [] (split_on CHR ''&'' q), None)"

fun join_with :: "string \<Rightarrow> string list \<Rightarrow> string" where
  "join_with sep [] = []"
| "join_with sep [x] = x"
| "join_with sep (x # y # ys) = x @ sep @ join_with sep (y # ys)"

definition example_EncodeValues :: "Values \<Rightarrow> string" where
  "example_EncodeValues v =
     join_with ''&'' (concat (map (\<lambda>e. map (\<lambda>x. fst e @ ''='' @ x) (snd e)) v))"

record RSV =
  R :: bytes
  S :: bytes
  V :: "8 word"

definition example_SplitSignature :: "bytes \<Rightarrow> RSV option" where
  "example_SplitSignature b =
     (if length b < 65 then None
      else Some \<lparr>R = take 32 b, S = take 32 (drop 32 b), V = b ! 64\<rparr>)"

definition example_proxy_env :: "RSV proxy_env" where
  "example_proxy_env =
     \<lparr>ParseQuery = example_ParseQuery,
      EncodeValues = example_EncodeValues,
      HexToHash = (\<lambda>s. 1),
      SplitSignature = example_SplitSignature,
      ReceiveVoucher = (\<lambda>v. Inr 10)\<rparr>"

definition example_proxy :: ReversePaymentProxy where
  "example_proxy = \<lparr>expectedPaymentAmount = 5\<rparr>"

definition example_signature_hex :: string where
  "example_signature_hex =
     ''0x'' @ ''1111111111111111111111111111111111111111111111111111111111111111''
           @ ''2222222222222222222222222222222222222222222222222222222222222222'' @ ''1b''"

definition example_signature_bytes :: bytes where
  "example_signature_bytes =
     [17, 17, 17, 17, 17, 17, 17, 17, 17, 17, 17, 17, 17, 17, 17, 17, 17, 17, 17, 17, 17, 17, 17, 17, 17, 17, 17, 17, 17, 17, 17, 17,
      34, 34, 34, 34, 34, 34, 34, 34, 34, 34, 34, 34, 34, 34, 34, 34, 34, 34, 34, 34, 34, 34, 34, 34, 34, 34, 34, 34, 34, 34, 34, 34, 27]"

definition example_signature :: RSV where
  "example_signature =
     \<lparr>R = [17, 17, 17, 17, 17, 17, 17, 17, 17, 17, 17, 17, 17, 17, 17, 17, 17, 17, 17, 17, 17, 17, 17, 17, 17, 17, 17, 17, 17, 17, 17, 17],
      S = [34, 34, 34, 34, 34, 34, 34, 34, 34, 34, 34, 34, 34, 34, 34, 34, 34, 34, 34, 34, 34, 34, 34, 34, 34, 34, 34, 34, 34, 34, 34, 34],
      V = 27\<rparr>"

definition example_params :: "string \<Rightarrow> string \<Rightarrow> Values" where
  "example_params amount signature =
     [(''channelId'', [''0x01'']), (''amount'', [amount]), (''signature'', [signature])]"

text \<open>An environment for examples: parts are the state itself, nothing throws.\<close>

definition example_env :: "(ts_State, ts_State, string) force_move_env" where
  "example_env =
     \<lparr>getFixedPart = (\<lambda>s. s),
      getVariablePart = (\<lambda>s. s),
      signChallengeMessage = (\<lambda>ss k. Inr k),
      encodeChallenge = (\<lambda>fp vps sigs w cs. Inr ''0x'')\<rparr>"

definition example_state :: ts_State where
  "example_state = \<lparr>turnNum = 3, channel = \<lparr>participants = [''0xA'', ''0xB'']\<rparr>\<rparr>"

section \<open>Theorems\<close>

subsection \<open>The examples, evaluated\<close>

lemmas example_defs =
  example_ops_def spec_ops_def example_cranker_def example_request_def example_channel_def
  example_prefund_def example_address_of_def Update_def NewLedgerCranker_def
  spec_LatestSupportedState_def spec_SignAndAdd_def spec_AddSignedState_def
  spec_CreateSignedStateMessages_def fully_signed_def HasAllSignatures_def signed_by_def
  valid_signatures_def verifies_def supported_above_def count_signatures_def
  NewSignedState_def nextState_def example_proposed_def example_signed_def
  example_channel_proposed_def example_cranker_proposed_def second_request_def
  example_channel_guaranteed_def example_cranker_guaranteed_def example_final_def
  example_channel_closing_def spec_PostFundComplete_def spec_FinalSignedByMe_def
  spec_FinalCompleted_def final_signed_by_def final_supported_def proposals_def
  proposal_def allocation_summary_def





lemma example_first_request:
  "HandleRequest example_ops example_cranker example_request ''oid'' [1]
     = Inr (example_cranker_proposed,
            \<lparr>MessagesToSend = [\<lparr>To = 2, MsgObjectiveId = ''oid'', SignedStates = [example_signed]\<rparr>]\<rparr>)"
  by (simp add: example_defs HandleRequest_def)

subsection \<open>The ledger cranker\<close>



text \<open>
  The turn number is a \<open>uint64\<close>: from the largest one the next state is back at 0.
\<close>

lemma nextState_turn_wraps:
  "TurnNum supported = - 1 \<Longrightarrow> TurnNum (nextState ops request supported) = 0"
  by (simp add: nextState_def)

lemma nextState_turn_unat:
  "TurnNum supported \<noteq> - 1 \<Longrightarrow>
   unat (TurnNum (nextState ops request supported)) = unat (TurnNum supported) + 1"
proof -
  assume "TurnNum supported \<noteq> - 1"
  then have "1 + TurnNum supported \<noteq> 0"
    by (simp add: add_eq_0_iff)
  then have "unat (1 + TurnNum supported) = Suc (unat (TurnNum supported))"
    by (rule unatSuc)
  then show ?thesis
    by (simp add: nextState_def add.commute)
qed






text \<open>
  C3, as amended. \<open>HandleRequest\<close> has no path that removes a guarantee: it reads no
  kind of request, and whenever it returns, the state it has signed and added has
  exactly three allocations, the first two of amount 0 for the request's left and right
  destinations and the third a guarantee for the request's destination with the
  request's amount. No amount is restored.
\<close>

theorem handled_request_holds_guarantee:
  assumes "HandleRequest ops l request oId secretKey = Inr (l', se)"
  shows "\<exists>ledger supported ss ch.
           ledgers l (LedgerId request) = Some ledger
         \<and> LatestSupportedState ops (Channel ledger) = Inr supported
         \<and> SignAndAdd ops secretKey (NewSignedState (nextState ops request supported)) = Inr ss
         \<and> AddSignedState ops (Channel ledger) ss = (True, ch)
         \<and> se = \<lparr>MessagesToSend = CreateSignedStateMessages ops oId ss (MyIndex ch)\<rparr>
         \<and> map allocation_summary (concat (map Allocations (Outcome (nextState ops request supported))))
             = [(Left request, Some 0, NormalAllocationType),
                (Right request, Some 0, NormalAllocationType),
                (ReqDestination request, ReqAmount request 0, GuaranteeAllocationType)]"
  using assms
  by (auto simp: HandleRequest_def nextState_def allocation_summary_def
           split: sum.splits option.splits bool.splits prod.splits)

theorem handled_request_holds_guarantee_witness:
  "\<exists>ledger supported ss ch.
     ledgers example_cranker (LedgerId example_request) = Some ledger
   \<and> LatestSupportedState example_ops (Channel ledger) = Inr supported
   \<and> SignAndAdd example_ops [1] (NewSignedState (nextState example_ops example_request supported)) = Inr ss
   \<and> AddSignedState example_ops (Channel ledger) ss = (True, ch)
   \<and> \<lparr>MessagesToSend = [\<lparr>To = 2, MsgObjectiveId = ''oid'', SignedStates = [example_signed]\<rparr>]\<rparr>
       = \<lparr>MessagesToSend = CreateSignedStateMessages example_ops ''oid'' ss (MyIndex ch)\<rparr>
   \<and> map allocation_summary (concat (map Allocations (Outcome (nextState example_ops example_request supported))))
       = [(Left example_request, Some 0, NormalAllocationType),
          (Right example_request, Some 0, NormalAllocationType),
          (ReqDestination example_request, ReqAmount example_request 0, GuaranteeAllocationType)]"
  by (rule handled_request_holds_guarantee [OF example_first_request])

text \<open>
  C3 as it is stated fails: the ledger's supported state of turn 1 holds a guarantee of
  10 for channel 500; a request to remove it is a request for that channel, and the state
  \<open>HandleRequest\<close> proposes for turn 2 still holds the guarantee of 10, with the left and
  the right amount at 0.
\<close>

theorem guarantee_is_not_removed:
  "map_sum id (proposals \<circ> snd)
     (HandleRequest example_ops example_cranker_guaranteed example_request ''oid'' [1])
   = Inr [(2, [(1, Some 0, NormalAllocationType), (2, Some 0, NormalAllocationType),
               (500, Some 10, GuaranteeAllocationType)])]"
  by (simp add: example_defs HandleRequest_def)

subsection \<open>The status of a channel\<close>

text \<open>
  C5, as amended. The status is Complete if a final state is signed by me and the
  channel is final-completed; Closing if a final state is signed by me and the channel is
  not final-completed; otherwise Proposed if the post-fund round is incomplete, and Ready
  if it is complete. The test for a final state signed by me comes first.
\<close>

theorem status_of_channel:
  "(getStatusFromChannel ops c = Complete) = (FinalSignedByMe ops c \<and> FinalCompleted ops c)
 \<and> (getStatusFromChannel ops c = Closing) = (FinalSignedByMe ops c \<and> \<not> FinalCompleted ops c)
 \<and> (getStatusFromChannel ops c = Proposed) = (\<not> FinalSignedByMe ops c \<and> \<not> PostFundComplete ops c)
 \<and> (getStatusFromChannel ops c = Ready) = (\<not> FinalSignedByMe ops c \<and> PostFundComplete ops c)"
  by (simp add: getStatusFromChannel_def)

text \<open>
  C5 as it is stated fails: in this channel the post-fund round is incomplete, and the
  status is Closing, not Proposed, since Alice has signed a final state.
\<close>

theorem incomplete_postfund_reported_closing:
  "\<not> PostFundComplete example_ops example_channel_closing
   \<and> FinalSignedByMe example_ops example_channel_closing
   \<and> getStatusFromChannel example_ops example_channel_closing = Closing"
  by (simp add: example_defs getStatusFromChannel_def)

subsection \<open>The mock store\<close>

lemma example_channel_id_string: "destination_String 77 = example_id_string"
  by (simp add: destination_String_def example_id_string_def hex_char_def upt_rec drop_bit_eq_div)

lemma example_channel_id_bytes: "1 # destination_bytes 77 = example_json"
  by (simp add: destination_bytes_def example_json_def upt_rec drop_bit_eq_div)

lemma example_channel_id_decoded: "bytes_destination (tl example_json) = 77"
  by (simp add: bytes_destination_def example_json_def)

lemma example_directfund_id:
  "ObjId example_store_ops (DirectFund example_directfund) = ''DirectFunding-'' @ example_id_string"
  by (simp add: example_store_ops_def example_ObjId_def example_directfund_def
        channel_id_string_def example_channel_def example_channel_id_string)

lemma example_directdefund_id:
  "ObjId example_store_ops (DirectDefund example_directdefund) = ''DirectDefunding-'' @ example_id_string"
  by (simp add: example_store_ops_def example_ObjId_def example_directdefund_def
        channel_id_string_def example_channel_def example_channel_id_string)

lemma example_marshal:
  "MarshalJSON example_store_ops (DirectFund example_directfund) = Inr example_json"
  "MarshalJSON example_store_ops (DirectDefund example_directdefund) = Inr example_json"
  by (simp_all add: example_store_ops_def example_MarshalJSON_def example_encode_def
        example_directfund_def example_directdefund_def example_channel_def
        example_channel_id_bytes)

lemma example_unmarshal:
  "UnmarshalJSON example_store_ops example_json = Inr \<lparr>Status = Approved, C = Some (bare_channel 77)\<rparr>"
  using example_channel_id_decoded
  by (simp add: example_store_ops_def example_UnmarshalJSON_def example_json_def code_status_def)

lemma example_store_ops_tests:
  "IsDirectFundObjective example_store_ops (ObjId example_store_ops (DirectFund example_directfund))"
  "\<not> IsDirectFundObjective example_store_ops (ObjId example_store_ops (DirectDefund example_directdefund))"
  "\<not> IsVirtualFundObjective example_store_ops (ObjId example_store_ops (DirectDefund example_directdefund))"
  unfolding example_directfund_id example_directdefund_id
  by (simp_all add: example_store_ops_def HasPrefix_def)

lemma example_channels:
  "Channels example_store_ops (DirectFund example_directfund) = [Some example_channel]"
  "Channels example_store_ops (DirectDefund example_directdefund) = [Some example_channel]"
  by (simp_all add: example_store_ops_def example_Channels_def example_directfund_def
        example_directdefund_def)

text \<open>
  C4, as amended. On an id with no stored entry the store's \<open>GetObjectiveById\<close> and
  \<open>getChannelById\<close> return an error to the caller; they only read the store. On an id
  with no stored ledger \<open>LedgerCranker.GetLedger\<close> panics; it only reads the cranker.
\<close>

theorem unknown_id:
  "(objectives ms oid = None \<longrightarrow>
      GetObjectiveById ops ms oid = Inl (Error ''no objective with id exists in storage''))
 \<and> (channels ms cid = None \<longrightarrow> getChannelById ms cid = Inl (Error ''channel not found''))
 \<and> (ledgers l lid = None \<longrightarrow> GetLedger l lid = Inl (Panic ''Ledger not found''))"
  by (simp add: GetObjectiveById_def getChannelById_def GetLedger_def)

theorem unknown_id_witness:
  "GetObjectiveById example_store_ops example_store ''DirectFunding-0x01''
     = Inl (Error ''no objective with id exists in storage'')
 \<and> getChannelById example_store 78 = Inl (Error ''channel not found'')
 \<and> GetLedger example_cranker 78 = Inl (Panic ''Ledger not found'')"
  using unknown_id [of example_store "''DirectFunding-0x01''" example_store_ops 78 example_cranker 78]
  by (simp add: example_store_def example_cranker_def Update_def NewLedgerCranker_def
        example_channel_def)

text \<open>
  C4 as it is stated fails: no ledger is stored under the id 78, and \<open>GetLedger\<close>
  panics; it does not return an error.
\<close>

theorem GetLedger_panics_on_unknown_id:
  "ledgers example_cranker 78 = None
   \<and> is_panic (GetLedger example_cranker 78)
   \<and> \<not> is_error (GetLedger example_cranker 78)"
  by (simp add: GetLedger_def example_cranker_def Update_def NewLedgerCranker_def
        example_channel_def)

text \<open>What \<open>HandleRequest\<close> does on an id with no stored ledger.\<close>

lemma HandleRequest_unknown_ledger:
  "ledgers l (LedgerId request) = None \<Longrightarrow>
   HandleRequest ops l request oId secretKey
     = Inl (Panic ''invalid memory address or nil pointer dereference'')"
  by (simp add: HandleRequest_def)

text \<open>
  C6, as amended. A direct-fund objective whose encoding decodes again, whose id is a
  direct-fund id and whose channel is the one its \<open>Channels\<close> lists, is stored by
  \<open>SetObjective\<close> without an error, and \<open>GetObjectiveById\<close> with its id then returns a
  direct-fund objective: the decoded one, with the channel that was stored. For an id that
  is neither a direct-fund nor a virtual-fund id, as the ids of the direct-defund and
  virtual-defund variants are, \<open>GetObjectiveById\<close> returns an error whatever is stored.
\<close>

theorem objective_round_trip:
  "(IsDirectFundObjective ops (ObjId ops (DirectFund dfo))
      \<and> MarshalJSON ops (DirectFund dfo) = Inr js
      \<and> UnmarshalJSON ops js = Inr dfo'
      \<and> C dfo' = Some c' \<and> Id c' = Id c
      \<and> Channels ops (DirectFund dfo) = [Some c]
    \<longrightarrow> snd (SetObjective ops ms (DirectFund dfo)) = None
      \<and> GetObjectiveById ops (fst (SetObjective ops ms (DirectFund dfo))) (ObjId ops (DirectFund dfo))
          = Inr (DirectFund (dfo'\<lparr>C := Some c\<rparr>)))
 \<and> (\<not> IsDirectFundObjective ops oid \<and> \<not> IsVirtualFundObjective ops oid
    \<longrightarrow> is_error (GetObjectiveById ops ms oid))"
  by (auto simp: SetObjective_def GetObjectiveById_def decodeObjective_def
        populateChannelData_def SetChannel_def getChannelById_def split: option.splits)

lemma example_reloaded:
  "\<lparr>Status = Approved, C = Some (bare_channel 77)\<rparr>\<lparr>C := Some example_channel\<rparr> = example_directfund"
  by (simp add: example_directfund_def)

theorem objective_round_trip_witness:
  "snd (SetObjective example_store_ops example_store (DirectFund example_directfund)) = None
 \<and> GetObjectiveById example_store_ops
      (fst (SetObjective example_store_ops example_store (DirectFund example_directfund)))
      (ObjId example_store_ops (DirectFund example_directfund))
     = Inr (DirectFund example_directfund)
 \<and> is_error (GetObjectiveById example_store_ops example_store
               (ObjId example_store_ops (DirectDefund example_directdefund)))"
proof -
  have stored:
    "IsDirectFundObjective example_store_ops (ObjId example_store_ops (DirectFund example_directfund))
     \<and> MarshalJSON example_store_ops (DirectFund example_directfund) = Inr example_json
     \<and> UnmarshalJSON example_store_ops example_json
         = Inr \<lparr>Status = Approved, C = Some (bare_channel 77)\<rparr>
     \<and> C \<lparr>Status = Approved, C = Some (bare_channel 77)\<rparr> = Some (bare_channel 77)
     \<and> Id (bare_channel 77) = Id example_channel
     \<and> Channels example_store_ops (DirectFund example_directfund) = [Some example_channel]"
    using example_store_ops_tests(1) example_marshal(1) example_unmarshal example_channels(1)
    by (simp add: bare_channel_def example_channel_def)
  have other:
    "\<not> IsDirectFundObjective example_store_ops (ObjId example_store_ops (DirectDefund example_directdefund))
     \<and> \<not> IsVirtualFundObjective example_store_ops (ObjId example_store_ops (DirectDefund example_directdefund))"
    using example_store_ops_tests(2,3) by blast
  from objective_round_trip
         [of example_store_ops example_directfund example_json
             "\<lparr>Status = Approved, C = Some (bare_channel 77)\<rparr>" "bare_channel 77" example_channel
             example_store "ObjId example_store_ops (DirectDefund example_directdefund)"]
       stored other
  have "snd (SetObjective example_store_ops example_store (DirectFund example_directfund)) = None
      \<and> GetObjectiveById example_store_ops
           (fst (SetObjective example_store_ops example_store (DirectFund example_directfund)))
           (ObjId example_store_ops (DirectFund example_directfund))
          = Inr (DirectFund (\<lparr>Status = Approved, C = Some (bare_channel 77)\<rparr>\<lparr>C := Some example_channel\<rparr>))
      \<and> is_error (GetObjectiveById example_store_ops example_store
               (ObjId example_store_ops (DirectDefund example_directdefund)))"
    by blast
  then show ?thesis
    by (simp only: example_reloaded)
qed

text \<open>
  C6 as it is stated fails: a direct-defund objective is stored without an error, and
  \<open>GetObjectiveById\<close> with its id returns an error and no objective.
\<close>

theorem directdefund_objective_is_not_reloaded:
  "snd (SetObjective example_store_ops example_store (DirectDefund example_directdefund)) = None
 \<and> GetObjectiveById example_store_ops
      (fst (SetObjective example_store_ops example_store (DirectDefund example_directdefund)))
      (ObjId example_store_ops (DirectDefund example_directdefund))
     = Inl (Error ''error decoding objective'')"
  using example_marshal(2) example_channels(2) example_store_ops_tests(2,3)
  by (simp add: SetObjective_def GetObjectiveById_def decodeObjective_def SetChannel_def)

subsection \<open>The reverse payment proxy\<close>

lemmas proxy_defs =
  example_proxy_env_def example_proxy_def example_ParseQuery_def example_EncodeValues_def
  example_SplitSignature_def example_signature_hex_def add_value_def
  AMOUNT_VOUCHER_PARAM_def CHANNEL_ID_VOUCHER_PARAM_def SIGNATURE_VOUCHER_PARAM_def
  Has_def Get_def delete_def MustDecode_def hexutil_Decode_def has0xPrefix_def hex_value_def
  SetString_def is_digit_def digits_value_def

lemma SetString_without_digit:
  assumes "list_all (\<lambda>c. \<not> is_digit c) s"
  shows "SetString s = 0"
proof (cases s)
  case Nil
  then show ?thesis by (simp add: SetString_def)
next
  case (Cons c cs)
  with assms have "takeWhile is_digit cs = []" "takeWhile is_digit s = []"
    by (cases cs; simp)+
  with Cons show ?thesis
    by (simp add: SetString_def digits_value_def)
qed

lemma MustDecode_cases:
  "(\<exists>b. MustDecode input = Inr b) \<or> (\<exists>m. MustDecode input = Inl (Panic m))"
proof (cases "hexutil_Decode input")
  case (Inl f)
  then show ?thesis by (cases f) (simp_all add: MustDecode_def)
next
  case (Inr b)
  then show ?thesis by (simp add: MustDecode_def)
qed

text \<open>
  C9, as amended. \<open>parseVoucher\<close> returns an error if and only if at least one of the
  channelId, amount and signature query parameters is absent. When all three are present
  and the signature parameter is a hexadecimal string with the 0x prefix that
  \<open>SplitSignature\<close> takes apart, it returns a voucher, whatever the amount parameter is:
  the voucher's amount is the number \<open>SetString\<close> has read from the front of the
  parameter, which is 0 when the parameter holds no decimal digit.
\<close>

theorem parseVoucher_result:
  "is_error (parseVoucher env params)
     = (\<not> (Has params CHANNEL_ID_VOUCHER_PARAM \<and> Has params AMOUNT_VOUCHER_PARAM
            \<and> Has params SIGNATURE_VOUCHER_PARAM))
 \<and> (Has params CHANNEL_ID_VOUCHER_PARAM \<and> Has params AMOUNT_VOUCHER_PARAM
      \<and> Has params SIGNATURE_VOUCHER_PARAM
      \<and> hexutil_Decode (Get params SIGNATURE_VOUCHER_PARAM) = Inr b
      \<and> SplitSignature env b = Some sg
    \<longrightarrow> parseVoucher env params
          = Inr \<lparr>ChannelId = HexToHash env (Get params CHANNEL_ID_VOUCHER_PARAM),
                 VoucherAmount = SetString (Get params AMOUNT_VOUCHER_PARAM),
                 Signature = sg\<rparr>)
 \<and> (list_all (\<lambda>c. \<not> is_digit c) (Get params AMOUNT_VOUCHER_PARAM)
    \<longrightarrow> SetString (Get params AMOUNT_VOUCHER_PARAM) = 0)"
proof (intro conjI impI)
  have "\<not> is_error (case MustDecode s of
                       Inl f \<Rightarrow> Inl f
                     | Inr b \<Rightarrow>
                         (case SplitSignature env b of
                            None \<Rightarrow> Inl (Panic ''SplitSignature'')
                          | Some sg \<Rightarrow> Inr (mk sg)))" for s and mk :: "'a \<Rightarrow> 'a Voucher"
    using MustDecode_cases [of s]
    by (auto split: option.splits)
  then show "is_error (parseVoucher env params)
     = (\<not> (Has params CHANNEL_ID_VOUCHER_PARAM \<and> Has params AMOUNT_VOUCHER_PARAM
            \<and> Has params SIGNATURE_VOUCHER_PARAM))"
    by (simp add: parseVoucher_def Let_def)
next
  assume "Has params CHANNEL_ID_VOUCHER_PARAM \<and> Has params AMOUNT_VOUCHER_PARAM
      \<and> Has params SIGNATURE_VOUCHER_PARAM
      \<and> hexutil_Decode (Get params SIGNATURE_VOUCHER_PARAM) = Inr b
      \<and> SplitSignature env b = Some sg"
  then show "parseVoucher env params
          = Inr \<lparr>ChannelId = HexToHash env (Get params CHANNEL_ID_VOUCHER_PARAM),
                 VoucherAmount = SetString (Get params AMOUNT_VOUCHER_PARAM),
                 Signature = sg\<rparr>"
    by (simp add: parseVoucher_def MustDecode_def)
next
  assume "list_all (\<lambda>c. \<not> is_digit c) (Get params AMOUNT_VOUCHER_PARAM)"
  then show "SetString (Get params AMOUNT_VOUCHER_PARAM) = 0"
    by (rule SetString_without_digit)
qed

lemma example_signature_decoded:
  "hexutil_Decode example_signature_hex = Inr example_signature_bytes"
  by (simp add: proxy_defs example_signature_bytes_def)

lemma example_signature_split:
  "SplitSignature example_proxy_env example_signature_bytes = Some example_signature"
  by (simp add: proxy_defs example_signature_bytes_def example_signature_def)

theorem parseVoucher_result_witness:
  "\<not> is_error (parseVoucher example_proxy_env (example_params ''abc'' example_signature_hex))
 \<and> parseVoucher example_proxy_env (example_params ''abc'' example_signature_hex)
     = Inr \<lparr>ChannelId = 1, VoucherAmount = 0, Signature = example_signature\<rparr>
 \<and> is_error (parseVoucher example_proxy_env [(''channelId'', [''0x01'']), (''amount'', [''5''])])"
  using parseVoucher_result
          [of example_proxy_env "example_params ''abc'' example_signature_hex"
              example_signature_bytes example_signature]
        parseVoucher_result
          [of example_proxy_env "[(''channelId'', [''0x01'']), (''amount'', [''5''])]"]
        example_signature_decoded example_signature_split
  by (simp add: example_params_def Has_def Get_def is_digit_def
        AMOUNT_VOUCHER_PARAM_def CHANNEL_ID_VOUCHER_PARAM_def SIGNATURE_VOUCHER_PARAM_def
        example_proxy_env_def)

text \<open>
  C9 as it is stated fails twice. With all three parameters present and a signature
  parameter that is no hexadecimal string, \<open>parseVoucher\<close> returns no voucher: it panics.
  With a well-formed signature and the amount parameter \<open>12abc\<close>, which is no number,
  the voucher's amount is 12, not 0.
\<close>

theorem parseVoucher_panics_and_reads_prefix:
  "parseVoucher example_proxy_env (example_params ''5'' ''zz'')
     = Inl (Panic ''hex string without 0x prefix'')
 \<and> map_sum id VoucherAmount
       (parseVoucher example_proxy_env (example_params ''12abc'' example_signature_hex))
     = Inr 12"
  using example_signature_decoded example_signature_split
  by (simp add: parseVoucher_def example_params_def Has_def Get_def MustDecode_def
        hexutil_Decode_def has0xPrefix_def SetString_def is_digit_def digits_value_def
        AMOUNT_VOUCHER_PARAM_def CHANNEL_ID_VOUCHER_PARAM_def SIGNATURE_VOUCHER_PARAM_def)

text \<open>
  C8, at the request that breaks it. The three voucher parameters are present, the
  signature parameter is no hexadecimal string: \<open>ServeHTTP\<close> panics in \<open>parseVoucher\<close>.
  It writes no error response, and it does not forward the request.
\<close>

theorem ServeHTTP_panics_on_malformed_signature:
  "ServeHTTP example_proxy_env example_proxy
     \<lparr>Path = ''/file'', RawQuery = ''channelId=0x01&amount=5&signature=zz''\<rparr>
   = Inl (Panic ''hex string without 0x prefix'')"
  by (simp add: ServeHTTP_def parseVoucher_def proxy_defs)

text \<open>
  What holds of \<open>ServeHTTP\<close> for every request: it forwards exactly when the query
  parses, \<open>parseVoucher\<close> returns a voucher, \<open>ReceiveVoucher\<close> succeeds and the delta
  is at least the expected amount; what it forwards is the request with the three
  voucher parameters deleted from its query; and when it neither forwards nor panics it
  answers with the status 400 or 402.
\<close>

lemma ServeHTTP_forwards_iff:
  "(\<exists>r'. ServeHTTP env p r = Inr (Forwarded r'))
     = (\<exists>params v delta.
          ParseQuery env (RawQuery r) = (params, None)
        \<and> parseVoucher env params = Inr v
        \<and> ReceiveVoucher env v = Inr delta
        \<and> expectedPaymentAmount p \<le> delta)"
  by (auto simp: ServeHTTP_def split: prod.splits option.splits sum.splits failure.splits)

lemma delete_removes: "\<not> Has (delete v k) k"
  by (induction v) (auto simp: Has_def delete_def)

lemma delete_keeps_absent: "\<not> Has v k \<Longrightarrow> \<not> Has (delete v k') k"
  by (induction v) (auto simp: Has_def delete_def split: if_splits)

lemma ServeHTTP_forwards_without_voucher_params:
  assumes "ServeHTTP env p r = Inr (Forwarded r')"
  shows "\<exists>vs. r' = r\<lparr>RawQuery := EncodeValues env vs\<rparr>
            \<and> \<not> Has vs CHANNEL_ID_VOUCHER_PARAM
            \<and> \<not> Has vs AMOUNT_VOUCHER_PARAM
            \<and> \<not> Has vs SIGNATURE_VOUCHER_PARAM"
proof -
  from assms have "r' = removeVoucherParams env r"
    by (auto simp: ServeHTTP_def split: prod.splits option.splits sum.splits failure.splits if_splits)
  then have "r' = r\<lparr>RawQuery := EncodeValues env
      (delete (delete (delete (fst (ParseQuery env (RawQuery r))) CHANNEL_ID_VOUCHER_PARAM)
         SIGNATURE_VOUCHER_PARAM) AMOUNT_VOUCHER_PARAM)\<rparr>"
    by (simp add: removeVoucherParams_def Let_def)
  moreover have "\<not> Has (delete (delete (delete v CHANNEL_ID_VOUCHER_PARAM)
      SIGNATURE_VOUCHER_PARAM) AMOUNT_VOUCHER_PARAM) k"
    if "k = CHANNEL_ID_VOUCHER_PARAM \<or> k = AMOUNT_VOUCHER_PARAM \<or> k = SIGNATURE_VOUCHER_PARAM"
    for v k
    using that delete_removes delete_keeps_absent by metis
  ultimately show ?thesis
    by (intro exI [of _ "delete (delete (delete (fst (ParseQuery env (RawQuery r)))
          CHANNEL_ID_VOUCHER_PARAM) SIGNATURE_VOUCHER_PARAM) AMOUNT_VOUCHER_PARAM"]) simp
qed

lemma ServeHTTP_otherwise:
  "(\<exists>r'. ServeHTTP env p r = Inr (Forwarded r'))
   \<or> ServeHTTP env p r = Inr (WebError 400)
   \<or> ServeHTTP env p r = Inr (WebError 402)
   \<or> is_panic (ServeHTTP env p r)"
  by (auto simp: ServeHTTP_def split: prod.splits option.splits sum.splits failure.splits)

subsection \<open>The chain-transaction creators\<close>

text \<open>
  C7. Malformed input to the chain-transaction creators is rejected at construction time:
  a call of \<open>createChallengeTransaction\<close> or of \<open>concludeArgs\<close> with an empty state
  list, or with a signature list whose length differs from that of the participant list
  of the first state, throws, and no transaction data (no argument array) is produced.
  The error is the one of the first test that fails.
\<close>

theorem malformed_input_rejected:
  assumes "states = []
         \<or> (\<exists>s0 rest. states = s0 # rest
                \<and> length (participants (channel s0)) \<noteq> length signatures)"
  shows "\<exists>e. createChallengeTransaction env states signatures whoSignedWhat challengerPrivateKey
                = Inl e
            \<and> concludeArgs env states signatures whoSignedWhat = Inl e
            \<and> e = (case states of
                     [] \<Rightarrow> NoStatesProvided
                   | s0 # _ \<Rightarrow>
                       LengthMismatch (length (participants (channel s0))) (length signatures))"
  using assms
  by (cases states) (auto simp: createChallengeTransaction_def concludeArgs_def)

theorem malformed_input_rejected_witness:
  "createChallengeTransaction example_env [] [''sig''] [0] ''key'' = Inl NoStatesProvided
 \<and> concludeArgs example_env [] [''sig''] [0] = Inl NoStatesProvided
 \<and> createChallengeTransaction example_env [example_state] [''sig''] [0] ''key''
     = Inl (LengthMismatch 2 1)
 \<and> concludeArgs example_env [example_state] [''sig''] [0] = Inl (LengthMismatch 2 1)"
proof -
  have empty:
    "([] :: ts_State list) = []
     \<or> (\<exists>s0 rest. [] = s0 # rest \<and> length (participants (channel s0)) \<noteq> length [''sig''])"
    by simp
  have mismatch:
    "[example_state] = []
     \<or> (\<exists>s0 rest. [example_state] = s0 # rest
            \<and> length (participants (channel s0)) \<noteq> length [''sig''])"
    by (simp add: example_state_def)
  from malformed_input_rejected [OF empty, of example_env "[0]" "''key''"]
       malformed_input_rejected [OF mismatch, of example_env "[0]" "''key''"]
  show ?thesis
    by (auto simp: example_state_def)
qed

text \<open>With well-formed input and helpers that do not throw, both functions return.\<close>

lemma well_formed_input_accepted:
  "createChallengeTransaction example_env [example_state] [''sigA'', ''sigB''] [0, 0] ''key''
     = Inr \<lparr>data = ''0x''\<rparr>
 \<and> concludeArgs example_env [example_state] [''sigA'', ''sigB''] [0, 0]
     = Inr \<lparr>ca_fixedPart = example_state, ca_latestVariablePart = example_state,
            ca_numStates = 1, ca_whoSignedWhat = [0, 0], ca_signatures = [''sigA'', ''sigB'']\<rparr>"
  by (simp add: createChallengeTransaction_def concludeArgs_def example_env_def example_state_def
        Let_def)

end
